theory Spec2Isabelle
  imports Main "HOL-Library.Word"
begin

section \<open>Matrix.h: data model\<close>

text \<open>
  The header declares one class, \<open>Matrix\<close>, with two nested enums, a nested
  \<open>Constraint\<close> struct and a nested \<open>Exception\<close> class. Elements are C++ \<open>int\<close>
  (32-bit two's complement); sizes and indices are \<open>size_t\<close>, modelled as \<open>nat\<close>
  (no arithmetic is done on them, only comparisons and indexing). A size that the
  implementation cannot serve shows where storage is requested, in \<open>vector_n\<close> and
  \<open>push_back\<close> below.
\<close>

type_synonym cint = "32 word"

text \<open>
  \<open>enum ConstaintType\<close> (the spelling is the source's). The enumerators \<open>equal\<close>,
  \<open>greater\<close> and \<open>less\<close> clash with constants of HOL and carry the suffix \<open>_ct\<close>.
\<close>

datatype ConstaintType =
    equal_ct
  | notEqual
  | greater_ct
  | greaterOrEqual
  | less_ct
  | lessOrEqual

text \<open>\<open>struct Constraint\<close>: the fields \<open>type\<close> and \<open>value\<close>.\<close>

record Constraint =
  c_type :: ConstaintType
  c_value :: cint

datatype ExceptionType =
    constraintViolation
  | invalidSize
  | outOfRange

text \<open>\<open>class Exception\<close> holds only \<open>m_type\<close>.\<close>

datatype Exception = Exception (m_type: ExceptionType)

text \<open>
  The exceptions of the standard library that a \<open>vector\<close> throws when it cannot get its
  storage: \<open>std::length_error\<close> for a size above \<open>max_size()\<close>, \<open>std::bad_alloc\<close>
  when the free store does not serve the request.
\<close>

datatype std_exception =
    length_error
  | bad_alloc

text \<open>
  How a call can end other than by returning: a thrown \<open>Exception\<close>, a failed
  \<open>assert\<close> (the process aborts), undefined behaviour (an unchecked
  \<open>operator[]\<close> outside the vector, a read through a reference whose referent is gone),
  or \<open>std::terminate\<close>, reached when an exception of the standard library leaves a
  function declared \<open>throw(Exception)\<close>.
\<close>

datatype failure =
    Throw Exception
  | AssertionFailed
  | Undefined
  | Terminated std_exception

text \<open>
  A returned reference. \<open>getRow\<close> returns \<open>const vector<int>&\<close> bound to an element
  of the member \<open>m_Data\<close>; \<open>getColumn\<close> returns \<open>vector<int>&&\<close> bound to its own
  local \<open>colData\<close>, whose lifetime ends when the function returns. The payload is what
  the referent held at the return statement.
\<close>

datatype 'a reference =
    MemberRef 'a
  | ExpiredLocalRef 'a

fun deref :: "'a reference \<Rightarrow> failure + 'a" where
  "deref (MemberRef v) = Inr v"
| "deref (ExpiredLocalRef v) = Inl Undefined"

record Matrix =
  m_numRows :: nat
  m_numColumns :: nat
  m_Data :: "cint list list"
  m_Constraints :: "Constraint list"

section \<open>Static members\<close>

text \<open>\<open>vector<string> Matrix::errMsg\<close>, indexed by the enumerator's value.\<close>

definition errMsg :: "string list" where
  "errMsg =
    [''One or more elements of matrix violate constraints.'',
     ''All rows in matrix must have the same size.'',
     ''Index is out of range when requested raw/column data.'']"

fun ExceptionType_value :: "ExceptionType \<Rightarrow> nat" where
  "ExceptionType_value constraintViolation = 0"
| "ExceptionType_value invalidSize = 1"
| "ExceptionType_value outOfRange = 2"

text \<open>\<open>Exception::what\<close>: \<open>errMsg[m_type].c_str()\<close>, an unchecked index.\<close>

definition what :: "Exception \<Rightarrow> failure + string" where
  "what e =
    (let i = ExceptionType_value (m_type e)
     in if i < length errMsg then Inr (errMsg ! i) else Inl Undefined)"

text \<open>
  \<open>map<ConstaintType, function<bool(int,int)>> Constraint::validationMap\<close>, as the
  initializer list writes it. The keys are distinct, so \<open>map_of\<close> is \<open>find\<close>.
  The comparisons are those of signed \<open>int\<close>.
\<close>

definition validationMap :: "(ConstaintType \<times> (cint \<Rightarrow> cint \<Rightarrow> bool)) list" where
  "validationMap =
    [(equal_ct, \<lambda>valToCheck v. valToCheck = v),
     (notEqual, \<lambda>valToCheck v. valToCheck \<noteq> v),
     (greater_ct, \<lambda>valToCheck v. v <s valToCheck),
     (greaterOrEqual, \<lambda>valToCheck v. v <=s valToCheck),
     (less_ct, \<lambda>valToCheck v. valToCheck <s v),
     (lessOrEqual, \<lambda>valToCheck v. valToCheck <=s v)]"

section \<open>Constraint::check\<close>

definition check :: "Constraint \<Rightarrow> cint \<Rightarrow> failure + bool" where
  "check c val =
    (case map_of validationMap (c_type c) of
       None \<Rightarrow> Inl AssertionFailed
     | Some f \<Rightarrow> Inr (f val (c_value c)))"

section \<open>std::for_each with a body that may throw\<close>

text \<open>
  The body is applied to the elements in order; the first failure leaves the loop.
  \<open>for_each\<close> is for a body that only reads, \<open>for_each_st\<close> for one that writes to
  what it captured by reference (the state \<open>'s\<close>).
\<close>

fun for_each :: "'a list \<Rightarrow> ('a \<Rightarrow> failure + unit) \<Rightarrow> failure + unit" where
  "for_each [] f = Inr ()"
| "for_each (x # xs) f = (case f x of Inl e \<Rightarrow> Inl e | Inr _ \<Rightarrow> for_each xs f)"

fun for_each_st :: "'a list \<Rightarrow> ('a \<Rightarrow> 's \<Rightarrow> failure + 's) \<Rightarrow> 's \<Rightarrow> failure + 's" where
  "for_each_st [] f s = Inr s"
| "for_each_st (x # xs) f s = (case f x s of Inl e \<Rightarrow> Inl e | Inr s' \<Rightarrow> for_each_st xs f s')"

section \<open>Matrix::checkConstraints (three overloads)\<close>

definition checkConstraints_int :: "Matrix \<Rightarrow> cint \<Rightarrow> failure + unit" where
  "checkConstraints_int m val =
    for_each (m_Constraints m) (\<lambda>c.
      case check c val of
        Inl e \<Rightarrow> Inl e
      | Inr ok \<Rightarrow> if \<not> ok then Inl (Throw (Exception constraintViolation)) else Inr ())"

definition checkConstraints_vec :: "Matrix \<Rightarrow> cint list \<Rightarrow> failure + unit" where
  "checkConstraints_vec m vals = for_each vals (\<lambda>val. checkConstraints_int m val)"

definition checkConstraints_all :: "Matrix \<Rightarrow> failure + unit" where
  "checkConstraints_all m =
    for_each (m_Data m) (\<lambda>row. for_each row (\<lambda>val. checkConstraints_int m val))"

section \<open>Constructors\<close>

text \<open>
  A constructor or a mutating member returns how it ended together with the state of the
  object at that moment, so that a write made before a throw would show. After
  \<open>Undefined\<close> and after \<open>Terminated\<close> the state component means nothing.
\<close>

text \<open>
  What the constructor cannot see in its arguments: the implementation's two
  \<open>max_size()\<close> values (of \<open>vector<int>\<close> and of \<open>vector<vector<int>>\<close>), and
  whether the free store serves a request. The constructor's body performs two operations
  per iteration that ask for storage, \<open>vector<int>(m_numColumns)\<close> and \<open>push_back\<close>;
  \<open>serves a k\<close> says whether the \<open>k\<close>-th of them, counted from 0 in program order,
  gets its storage. The initializer list's copy of \<open>constraints\<close>, a vector the caller
  already holds, is not counted among them.
\<close>

record allocator =
  int_max_size :: nat
  row_max_size :: nat
  serves :: "nat \<Rightarrow> bool"

text \<open>
  \<open>vector<int>(n)\<close>, as operation \<open>k\<close>: \<open>n\<close> value-initialized elements; the size is
  checked against \<open>max_size()\<close> first, and an empty vector asks for no storage.
\<close>

definition vector_n :: "allocator \<Rightarrow> nat \<Rightarrow> nat \<Rightarrow> std_exception + cint list" where
  "vector_n a k n =
    (if int_max_size a < n then Inl length_error
     else if 0 < n \<and> \<not> serves a k then Inl bad_alloc
     else Inr (replicate n 0))"

text \<open>\<open>std::fill(row.begin(), row.end(), v)\<close>.\<close>

definition fill :: "cint list \<Rightarrow> cint \<Rightarrow> cint list" where
  "fill row v = map (\<lambda>_. v) row"

text \<open>
  \<open>m_Data.push_back(row)\<close>, as operation \<open>k\<close>: a vector that already holds
  \<open>max_size()\<close> elements cannot grow; otherwise the copy of the row (and the larger
  buffer, if one is needed) comes from the free store.
\<close>

definition push_back ::
  "allocator \<Rightarrow> nat \<Rightarrow> cint list list \<Rightarrow> cint list \<Rightarrow> std_exception + cint list list" where
  "push_back a k d row =
    (if row_max_size a \<le> length d then Inl length_error
     else if \<not> serves a k then Inl bad_alloc
     else Inr (d @ [row]))"

text \<open>
  The body's loop \<open>for (size_t i = 0; i < m_numRows; ++i)\<close>, from \<open>i\<close> on. An
  exception of the standard library leaves the loop.
\<close>

function push_rows :: "allocator \<Rightarrow> nat \<Rightarrow> cint \<Rightarrow> Matrix \<Rightarrow> std_exception + Matrix" where
  "push_rows a i fillWith m =
    (if i < m_numRows m
     then
       (case vector_n a (2 * i) (m_numColumns m) of
          Inl e \<Rightarrow> Inl e
        | Inr row \<Rightarrow>
            (case push_back a (2 * i + 1) (m_Data m) (fill row fillWith) of
               Inl e \<Rightarrow> Inl e
             | Inr d \<Rightarrow> push_rows a (Suc i) fillWith (m\<lparr>m_Data := d\<rparr>)))
     else Inr m)"
  by pat_completeness auto
termination
  by (relation "measure (\<lambda>(a, i, fillWith, m). m_numRows m - i)") auto

declare push_rows.simps [simp del]

text \<open>
  \<open>Matrix(size_t numRows, size_t numColumns, int fillWith, const vector<Constraint>&)
  throw(Exception)\<close>: the initializer list leaves \<open>m_Data\<close> default-constructed (empty);
  the body checks \<open>fillWith\<close> and then runs the loop. The exception specification turns
  an exception of the standard library into \<open>std::terminate\<close>.
\<close>

definition Matrix_size_init :: "nat \<Rightarrow> nat \<Rightarrow> Constraint list \<Rightarrow> Matrix" where
  "Matrix_size_init numRows numColumns constraints =
    \<lparr>m_numRows = numRows, m_numColumns = numColumns, m_Data = [], m_Constraints = constraints\<rparr>"

definition Matrix_size ::
  "allocator \<Rightarrow> nat \<Rightarrow> nat \<Rightarrow> cint \<Rightarrow> Constraint list \<Rightarrow> (failure + unit) \<times> Matrix" where
  "Matrix_size a numRows numColumns fillWith constraints =
    (let m = Matrix_size_init numRows numColumns constraints
     in case checkConstraints_int m fillWith of
          Inl e \<Rightarrow> (Inl e, m)
        | Inr _ \<Rightarrow>
            (case push_rows a 0 fillWith m of
               Inl e \<Rightarrow> (Inl (Terminated e), m)
             | Inr m' \<Rightarrow> (Inr (), m')))"

text \<open>
  \<open>Matrix(const vector<vector<int>>& data, int fillWith, const vector<Constraint>&)\<close>:
  the initializer list copies \<open>data\<close> into \<open>m_Data\<close>; the body reads the first row's
  size and compares every row's size with it. \<open>fillWith\<close> is not used, and no
  overload of \<open>checkConstraints\<close> is called.
\<close>

definition Matrix_data_init :: "cint list list \<Rightarrow> Constraint list \<Rightarrow> Matrix" where
  "Matrix_data_init data constraints =
    \<lparr>m_numRows = length data, m_numColumns = 0, m_Data = data, m_Constraints = constraints\<rparr>"

definition Matrix_data ::
  "cint list list \<Rightarrow> cint \<Rightarrow> Constraint list \<Rightarrow> (failure + unit) \<times> Matrix" where
  "Matrix_data data fillWith constraints =
    (let m = Matrix_data_init data constraints
     in if length (m_Data m) > 0
        then
          (let m' = m\<lparr>m_numColumns := length (hd (m_Data m))\<rparr>
           in case for_each (m_Data m') (\<lambda>row.
                     if length row \<noteq> m_numColumns m'
                     then Inl (Throw (Exception invalidSize)) else Inr ()) of
                Inl e \<Rightarrow> (Inl e, m')
              | Inr _ \<Rightarrow> (Inr (), m'))
        else (Inr (), m))"

section \<open>Data access\<close>

text \<open>
  \<open>getRow\<close>: the check is \<open>row > m_numRows\<close>; \<open>m_Data[row]\<close> is unchecked, so an
  index that passes the check and is not below \<open>m_Data.size()\<close> is undefined behaviour.
\<close>

definition getRow :: "nat \<Rightarrow> Matrix \<Rightarrow> failure + cint list reference" where
  "getRow row m =
    (if row > m_numRows m then Inl (Throw (Exception outOfRange))
     else if row < length (m_Data m) then Inr (MemberRef (m_Data m ! row))
     else Inl Undefined)"

text \<open>\<open>setRow\<close>: both overloads have the same body.\<close>

definition setRow :: "nat \<Rightarrow> cint list \<Rightarrow> Matrix \<Rightarrow> (failure + unit) \<times> Matrix" where
  "setRow row data m =
    (if row > m_numRows m then (Inl (Throw (Exception outOfRange)), m)
     else if length data \<noteq> m_numColumns m then (Inl (Throw (Exception invalidSize)), m)
     else case checkConstraints_vec m data of
            Inl e \<Rightarrow> (Inl e, m)
          | Inr _ \<Rightarrow>
              if row < length (m_Data m)
              then (Inr (), m\<lparr>m_Data := (m_Data m)[row := data]\<rparr>)
              else (Inl Undefined, m))"

text \<open>
  \<open>getColumn\<close>: the check compares \<open>col\<close> with \<open>m_numRows\<close>; the loop pushes
  \<open>row[col]\<close> (unchecked) for every row; the result is \<open>std::move(colData)\<close> returned
  as \<open>vector<int>&&\<close>, a reference to the local.
\<close>

definition getColumn :: "nat \<Rightarrow> Matrix \<Rightarrow> failure + cint list reference" where
  "getColumn col m =
    (if col > m_numRows m then Inl (Throw (Exception outOfRange))
     else case for_each_st (m_Data m) (\<lambda>row colData.
                 if col < length row then Inr (colData @ [row ! col]) else Inl Undefined) [] of
            Inl e \<Rightarrow> Inl e
          | Inr colData \<Rightarrow> Inr (ExpiredLocalRef colData))"

text \<open>
  \<open>setColumn\<close>: both overloads have the same body. The loop's state is the counter
  \<open>row\<close> and the grid; \<open>m_Data[row++][col] = val\<close> indexes twice, unchecked.
\<close>

definition setColumn :: "nat \<Rightarrow> cint list \<Rightarrow> Matrix \<Rightarrow> (failure + unit) \<times> Matrix" where
  "setColumn col data m =
    (if col > m_numColumns m then (Inl (Throw (Exception outOfRange)), m)
     else if length data \<noteq> m_numRows m then (Inl (Throw (Exception invalidSize)), m)
     else case checkConstraints_vec m data of
            Inl e \<Rightarrow> (Inl e, m)
          | Inr _ \<Rightarrow>
              (case for_each_st data (\<lambda>val (row, d).
                      if row < length d \<and> col < length (d ! row)
                      then Inr (Suc row, d[row := (d ! row)[col := val]])
                      else Inl Undefined) (0, m_Data m) of
                 Inl e \<Rightarrow> (Inl e, m)
               | Inr (_, d) \<Rightarrow> (Inr (), m\<lparr>m_Data := d\<rparr>)))"

section \<open>Predicates used to state the properties\<close>

text \<open>The comparison a constraint stands for, on the mathematical value of an \<open>int\<close>.\<close>

fun holds :: "ConstaintType \<Rightarrow> int \<Rightarrow> int \<Rightarrow> bool" where
  "holds equal_ct a b = (a = b)"
| "holds notEqual a b = (a \<noteq> b)"
| "holds greater_ct a b = (a > b)"
| "holds greaterOrEqual a b = (a \<ge> b)"
| "holds less_ct a b = (a < b)"
| "holds lessOrEqual a b = (a \<le> b)"

text \<open>A value passes every constraint of a list.\<close>

definition satisfies :: "Constraint list \<Rightarrow> cint \<Rightarrow> bool" where
  "satisfies cs v = list_all (\<lambda>c. check c v = Inr True) cs"

text \<open>Invariant (1) of the class: the grid is \<open>m_numRows\<close> rows of \<open>m_numColumns\<close> elements.\<close>

definition rectangular :: "Matrix \<Rightarrow> bool" where
  "rectangular m =
    (length (m_Data m) = m_numRows m \<and> list_all (\<lambda>row. length row = m_numColumns m) (m_Data m))"

text \<open>Invariant (2): every stored element passes every constraint.\<close>

definition constrained :: "Matrix \<Rightarrow> bool" where
  "constrained m = list_all (list_all (satisfies (m_Constraints m))) (m_Data m)"

section \<open>Concrete inputs for the examples\<close>

text \<open>The constraints \<open>x \<ge> 0\<close> and \<open>x \<le> 9\<close>, and the only-zero constraint \<open>x = 0\<close>.\<close>

definition digits :: "Constraint list" where
  "digits =
    [\<lparr>c_type = greaterOrEqual, c_value = 0\<rparr>, \<lparr>c_type = lessOrEqual, c_value = 9\<rparr>]"

definition zero_only :: "Constraint list" where
  "zero_only = [\<lparr>c_type = equal_ct, c_value = 0\<rparr>]"



text \<open>The object that \<open>Matrix(2, 2, 5, digits)\<close> constructs.\<close>

definition fives :: Matrix where
  "fives =
    \<lparr>m_numRows = 2, m_numColumns = 2, m_Data = [[5, 5], [5, 5]], m_Constraints = digits\<rparr>"

text \<open>The objects that the grid-based constructor builds from four small grids.\<close>

definition grid_1x1 :: Matrix where
  "grid_1x1 = snd (Matrix_data [[1]] 0 [])"

definition grid_1x3 :: Matrix where
  "grid_1x3 = snd (Matrix_data [[1, 2, 3]] 0 [])"

definition grid_2x1 :: Matrix where
  "grid_2x1 = snd (Matrix_data [[1], [2]] 0 [])"

definition grid_2x2 :: Matrix where
  "grid_2x2 = snd (Matrix_data [[1, 2], [3, 4]] 0 [])"

section \<open>Lemmas on the loops\<close>

lemma check_total: "check c v = Inr (holds (c_type c) (sint v) (sint (c_value c)))"
  by (cases "c_type c")
    (simp_all add: check_def validationMap_def word_sless_alt word_sle_eq
      flip: word_eq_iff_signed)

lemma checkConstraints_int_eq:
  "checkConstraints_int m v =
    (if satisfies (m_Constraints m) v then Inr () else Inl (Throw (Exception constraintViolation)))"
proof -
  have "for_each cs (\<lambda>c. case check c v of Inl e \<Rightarrow> Inl e
          | Inr ok \<Rightarrow> if \<not> ok then Inl (Throw (Exception constraintViolation)) else Inr ()) =
        (if satisfies cs v then Inr () else Inl (Throw (Exception constraintViolation)))" for cs
    by (induction cs) (simp_all add: satisfies_def check_total)
  then show ?thesis by (simp add: checkConstraints_int_def)
qed

lemma checkConstraints_vec_eq:
  "checkConstraints_vec m vals =
    (if list_all (satisfies (m_Constraints m)) vals then Inr ()
     else Inl (Throw (Exception constraintViolation)))"
  unfolding checkConstraints_vec_def
  by (induction vals) (simp_all add: checkConstraints_int_eq)

lemma push_rows_Inr:
  "push_rows a i f m = Inr m' \<Longrightarrow>
    m' = m\<lparr>m_Data := m_Data m @ replicate (m_numRows m - i) (replicate (m_numColumns m) f)\<rparr>"
proof (induction a i f m rule: push_rows.induct)
  case (1 a i fillWith m)
  let ?row = "replicate (m_numColumns m) fillWith"
  show ?case
  proof (cases "i < m_numRows m")
    case True
    from "1.prems" True obtain row0 where v: "vector_n a (2 * i) (m_numColumns m) = Inr row0"
      by (subst (asm) push_rows.simps) (simp split: sum.splits)
    then have row0: "row0 = replicate (m_numColumns m) 0"
      by (simp add: vector_n_def split: if_splits)
    from "1.prems" True v obtain d where
      p: "push_back a (2 * i + 1) (m_Data m) (fill row0 fillWith) = Inr d"
      by (subst (asm) push_rows.simps) (simp split: sum.splits)
    have row: "fill row0 fillWith = ?row"
      by (simp add: fill_def row0)
    from p have d: "d = m_Data m @ [?row]"
      by (simp add: push_back_def row split: if_splits)
    from "1.prems" True v p have rest: "push_rows a (Suc i) fillWith (m\<lparr>m_Data := d\<rparr>) = Inr m'"
      by (subst (asm) push_rows.simps) simp
    have ih: "m' = (m\<lparr>m_Data := d\<rparr>)\<lparr>m_Data := m_Data (m\<lparr>m_Data := d\<rparr>) @
        replicate (m_numRows (m\<lparr>m_Data := d\<rparr>) - Suc i)
          (replicate (m_numColumns (m\<lparr>m_Data := d\<rparr>)) fillWith)\<rparr>"
      using "1.IH" [OF True v p rest] .
    have split: "replicate (m_numRows m - i) ?row = ?row # replicate (m_numRows m - Suc i) ?row"
      using True by (cases "m_numRows m - i") (simp_all add: Suc_diff_Suc)
    show ?thesis
      unfolding ih split by (simp add: d)
  next
    case False
    with "1.prems" show ?thesis by (subst (asm) push_rows.simps) simp
  qed
qed


lemma push_rows_too_wide:
  "i < m_numRows m \<Longrightarrow> int_max_size a < m_numColumns m \<Longrightarrow>
    push_rows a i f m = Inl length_error"
  by (subst push_rows.simps) (simp add: vector_n_def)

lemma for_each_rows_eq:
  "for_each rows (\<lambda>row. for_each row (\<lambda>val. checkConstraints_int m val)) =
    (if list_all (list_all (satisfies (m_Constraints m))) rows then Inr ()
     else Inl (Throw (Exception constraintViolation)))"
proof (induction rows)
  case Nil
  show ?case by simp
next
  case (Cons row rows)
  have "for_each row (\<lambda>val. checkConstraints_int m val) = checkConstraints_vec m row"
    by (simp add: checkConstraints_vec_def)
  with Cons show ?case by (simp add: checkConstraints_vec_eq)
qed

lemma checkConstraints_all_eq:
  "checkConstraints_all m =
    (if constrained m then Inr () else Inl (Throw (Exception constraintViolation)))"
  by (simp add: checkConstraints_all_def constrained_def for_each_rows_eq)

section \<open>Lemmas on the constructors\<close>

lemma for_each_sizes_eq:
  "for_each rows (\<lambda>row. if length row \<noteq> n then Inl (Throw (Exception invalidSize)) else Inr ()) =
    (if list_all (\<lambda>row. length row = n) rows then Inr ()
     else Inl (Throw (Exception invalidSize)))"
  by (induction rows) simp_all

lemma Matrix_data_eq:
  "Matrix_data data f cs =
    (let m = \<lparr>m_numRows = length data, m_numColumns = (if data = [] then 0 else length (hd data)),
               m_Data = data, m_Constraints = cs\<rparr>
     in if list_all (\<lambda>row. length row = m_numColumns m) data then (Inr (), m)
        else (Inl (Throw (Exception invalidSize)), m))"
  by (cases data) (simp_all add: Matrix_data_def Matrix_data_init_def for_each_sizes_eq Let_def)

lemma Matrix_data_rectangular:
  "fst (Matrix_data data f cs) = Inr () \<Longrightarrow> rectangular (snd (Matrix_data data f cs))"
  by (simp add: Matrix_data_eq Let_def rectangular_def split: if_splits)

lemma Matrix_size_Inr:
  assumes "fst (Matrix_size a r c f cs) = Inr ()"
  shows "satisfies cs f \<and>
    snd (Matrix_size a r c f cs) =
      \<lparr>m_numRows = r, m_numColumns = c, m_Data = replicate r (replicate c f), m_Constraints = cs\<rparr>"
proof -
  let ?m = "Matrix_size_init r c cs"
  have sat: "satisfies cs f"
  proof (rule ccontr)
    assume "\<not> satisfies cs f"
    then have "fst (Matrix_size a r c f cs) \<noteq> Inr ()"
      by (simp add: Matrix_size_def Matrix_size_init_def checkConstraints_int_eq)
    with assms show False by simp
  qed
  then have unfold: "Matrix_size a r c f cs =
      (case push_rows a 0 f ?m of Inl e \<Rightarrow> (Inl (Terminated e), ?m) | Inr m' \<Rightarrow> (Inr (), m'))"
    by (simp add: Matrix_size_def Let_def checkConstraints_int_eq Matrix_size_init_def
        split: sum.splits)
  show ?thesis
  proof (cases "push_rows a 0 f ?m")
    case (Inl e)
    with assms show ?thesis by (simp add: unfold)
  next
    case (Inr m')
    from push_rows_Inr [OF Inr] have "m' =
        \<lparr>m_numRows = r, m_numColumns = c, m_Data = replicate r (replicate c f), m_Constraints = cs\<rparr>"
      by (simp add: Matrix_size_init_def)
    with sat Inr show ?thesis by (simp add: unfold)
  qed
qed

lemma Matrix_size_invariants:
  assumes "fst (Matrix_size a r c f cs) = Inr ()"
  shows "rectangular (snd (Matrix_size a r c f cs)) \<and> constrained (snd (Matrix_size a r c f cs))"
proof -
  from Matrix_size_Inr [OF assms] show ?thesis
    by (simp add: rectangular_def constrained_def list_all_iff)
qed

lemma Matrix_size_too_wide:
  assumes "satisfies cs f" and "0 < r" and "int_max_size a < c"
  shows "fst (Matrix_size a r c f cs) = Inl (Terminated length_error)"
proof -
  have "push_rows a 0 f (Matrix_size_init r c cs) = Inl length_error"
    using assms(2,3) by (intro push_rows_too_wide) (simp_all add: Matrix_size_init_def)
  with assms(1) show ?thesis
    by (simp add: Matrix_size_def checkConstraints_int_eq Matrix_size_init_def)
qed

section \<open>Lemmas on setRow and setColumn\<close>

text \<open>
  What the two mutators do in the order of their checks, with the index check as the
  source writes it (\<open>row > m_numRows\<close>, \<open>col > m_numColumns\<close>), and that a throw
  happens before any write.
\<close>

lemma list_all_update:
  "list_all P xs \<Longrightarrow> P x \<Longrightarrow> list_all P (xs[i := x])"
  using set_update_subset_insert [of xs i x] by (auto simp: list_all_iff)

lemma setRow_throws:
  "m_numRows m < i \<Longrightarrow> setRow i d m = (Inl (Throw (Exception outOfRange)), m)"
  "i \<le> m_numRows m \<Longrightarrow> length d \<noteq> m_numColumns m \<Longrightarrow>
    setRow i d m = (Inl (Throw (Exception invalidSize)), m)"
  "i \<le> m_numRows m \<Longrightarrow> length d = m_numColumns m \<Longrightarrow>
    \<not> list_all (satisfies (m_Constraints m)) d \<Longrightarrow>
    setRow i d m = (Inl (Throw (Exception constraintViolation)), m)"
  by (simp_all add: setRow_def checkConstraints_vec_eq)

lemma setColumn_throws:
  "m_numColumns m < j \<Longrightarrow> setColumn j d m = (Inl (Throw (Exception outOfRange)), m)"
  "j \<le> m_numColumns m \<Longrightarrow> length d \<noteq> m_numRows m \<Longrightarrow>
    setColumn j d m = (Inl (Throw (Exception invalidSize)), m)"
  "j \<le> m_numColumns m \<Longrightarrow> length d = m_numRows m \<Longrightarrow>
    \<not> list_all (satisfies (m_Constraints m)) d \<Longrightarrow>
    setColumn j d m = (Inl (Throw (Exception constraintViolation)), m)"
  by (simp_all add: setColumn_def checkConstraints_vec_eq)

lemma setRow_failure_intact:
  "fst (setRow i d m) \<noteq> Inr () \<Longrightarrow> snd (setRow i d m) = m"
  by (simp add: setRow_def split: if_splits sum.splits)

lemma setColumn_throw_intact:
  "fst (setColumn j d m) = Inl (Throw e) \<Longrightarrow> snd (setColumn j d m) = m"
  by (simp add: setColumn_def split: if_splits sum.splits prod.splits)

lemma setRow_preserves:
  assumes "rectangular m" and "constrained m" and "fst (setRow i d m) = Inr ()"
  shows "rectangular (snd (setRow i d m)) \<and> constrained (snd (setRow i d m))"
  using assms
  by (auto simp: setRow_def checkConstraints_vec_eq rectangular_def constrained_def
      intro: list_all_update split: if_splits)

lemma setColumn_loop_preserves:
  assumes "for_each_st data (\<lambda>val (row, d).
        if row < length d \<and> col < length (d ! row)
        then Inr (Suc row, d[row := (d ! row)[col := val]])
        else Inl Undefined) (k, d) = Inr (k', d')"
  shows "length d' = length d \<and> map length d' = map length d \<and>
    (list_all P data \<longrightarrow> list_all (list_all P) d \<longrightarrow> list_all (list_all P) d')"
  using assms
proof (induction data arbitrary: k d)
  case Nil
  then show ?case by simp
next
  case (Cons v vs)
  from Cons.prems have inb: "k < length d" "col < length (d ! k)"
    by (auto split: if_splits)
  let ?d = "d[k := (d ! k)[col := v]]"
  from Cons.prems inb have step: "for_each_st vs (\<lambda>val (row, d).
        if row < length d \<and> col < length (d ! row)
        then Inr (Suc row, d[row := (d ! row)[col := val]])
        else Inl Undefined) (Suc k, ?d) = Inr (k', d')"
    by simp
  note ih = Cons.IH [OF step]
  have lens: "map length ?d = map length d"
    using inb by (simp add: map_update list_update_same_conv)
  have pres: "list_all (list_all P) ?d" if "P v" "list_all (list_all P) d"
  proof -
    from that(2) inb have "list_all P (d ! k)" by (simp add: list_all_length)
    with that(1) have "list_all P ((d ! k)[col := v])" by (rule list_all_update [rotated])
    with that(2) show ?thesis by (rule list_all_update)
  qed
  from ih lens pres show ?case by auto
qed

lemma setColumn_preserves:
  assumes "rectangular m" and "constrained m" and "fst (setColumn j d m) = Inr ()"
  shows "rectangular (snd (setColumn j d m)) \<and> constrained (snd (setColumn j d m))"
proof -
  let ?body = "\<lambda>val (row, g).
        if row < length g \<and> j < length (g ! row)
        then Inr (Suc row, g[row := (g ! row)[j := val]])
        else Inl Undefined"
  have a: "\<not> m_numColumns m < j"
  proof
    assume "m_numColumns m < j"
    then have "fst (setColumn j d m) \<noteq> Inr ()" by (simp add: setColumn_def)
    with assms(3) show False by simp
  qed
  have b: "length d = m_numRows m"
  proof (rule ccontr)
    assume "length d \<noteq> m_numRows m"
    with a have "fst (setColumn j d m) \<noteq> Inr ()" by (simp add: setColumn_def)
    with assms(3) show False by simp
  qed
  have ok: "list_all (satisfies (m_Constraints m)) d"
  proof (rule ccontr)
    assume "\<not> list_all (satisfies (m_Constraints m)) d"
    with a b have "fst (setColumn j d m) \<noteq> Inr ()"
      by (simp add: setColumn_def checkConstraints_vec_eq)
    with assms(3) show False by simp
  qed
  have unfold: "setColumn j d m =
      (case for_each_st d ?body (0, m_Data m) of
         Inl e \<Rightarrow> (Inl e, m)
       | Inr (_, g) \<Rightarrow> (Inr (), m\<lparr>m_Data := g\<rparr>))"
    using a b ok by (simp add: setColumn_def checkConstraints_vec_eq)
  show ?thesis
  proof (cases "for_each_st d ?body (0, m_Data m)")
    case (Inl e)
    with assms(3) show ?thesis by (simp add: unfold)
  next
    case (Inr p)
    obtain k' d' where p: "p = (k', d')" by (cases p)
    from Inr p have loop: "for_each_st d ?body (0, m_Data m) = Inr (k', d')" by simp
    then have res: "setColumn j d m = (Inr (), m\<lparr>m_Data := d'\<rparr>)"
      by (simp add: unfold)
    note q = setColumn_loop_preserves [OF loop, of "satisfies (m_Constraints m)"]
    from q have len: "length d' = length (m_Data m)"
      and ml: "map length d' = map length (m_Data m)"
      by simp_all
    have "list_all (\<lambda>row. length row = m_numColumns m) d' =
        list_all (\<lambda>l. l = m_numColumns m) (map length d')"
      by (simp add: list.pred_map comp_def)
    also have "\<dots> = list_all (\<lambda>row. length row = m_numColumns m) (m_Data m)"
      by (simp add: ml list.pred_map comp_def)
    finally have "rectangular (m\<lparr>m_Data := d'\<rparr>)"
      using len assms(1) by (simp add: rectangular_def)
    moreover from q ok assms(2) have "constrained (m\<lparr>m_Data := d'\<rparr>)"
      by (simp add: constrained_def)
    ultimately show ?thesis by (simp add: res)
  qed
qed

lemmas eval_defs =
  Matrix_data_def Matrix_data_init_def getRow_def setRow_def getColumn_def setColumn_def
  checkConstraints_vec_eq checkConstraints_int_eq satisfies_def check_def validationMap_def
  digits_def zero_only_def word_sle_eq word_sless_alt constrained_def rectangular_def
  grid_1x1_def grid_1x3_def grid_2x1_def grid_2x2_def

section \<open>Constraint::check decides the comparison\<close>

text \<open>
  C7. For each of the six kinds and every candidate, \<open>check\<close> returns (it never ends in a
  failed assertion) and its result is the comparison of the candidate with the reference
  value as signed integers. \<open>check\<close> takes and returns values only: it has no state to
  change.
\<close>

theorem check_is_comparison:
  "check c v = Inr
    (case c_type c of
       equal_ct \<Rightarrow> sint v = sint (c_value c)
     | notEqual \<Rightarrow> sint v \<noteq> sint (c_value c)
     | greater_ct \<Rightarrow> sint v > sint (c_value c)
     | greaterOrEqual \<Rightarrow> sint v \<ge> sint (c_value c)
     | less_ct \<Rightarrow> sint v < sint (c_value c)
     | lessOrEqual \<Rightarrow> sint v \<le> sint (c_value c))"
  by (cases "c_type c") (simp_all add: check_total)

section \<open>The size-based constructor\<close>




section \<open>The grid-based constructor\<close>

text \<open>
  C10. The parameter \<open>fillWith\<close> of the grid-based constructor does not affect the
  outcome: with any two values the constructor ends the same way with the same object
  (shape, elements and constraints).
\<close>

theorem Matrix_data_ignores_fillWith:
  "Matrix_data data f1 cs = Matrix_data data f2 cs"
  by (simp add: Matrix_data_def)

text \<open>
  C1. The grid-based constructor does not validate the elements: from the rectangular
  grid \<open>[[1, 10]]\<close> with the constraints \<open>0 \<le> x \<le> 9\<close> it returns normally and stores
  10, which fails \<open>x \<le> 9\<close>. The overload \<open>checkConstraints()\<close>, which the constructor
  never calls, throws \<open>constraintViolation\<close> on the object it built.
\<close>

theorem Matrix_data_unvalidated:
  "Matrix_data [[1, 10]] 0 digits =
     (Inr (), \<lparr>m_numRows = 1, m_numColumns = 2, m_Data = [[1, 10]], m_Constraints = digits\<rparr>) \<and>
   \<not> satisfies digits 10 \<and>
   checkConstraints_all (snd (Matrix_data [[1, 10]] 0 digits)) =
     Inl (Throw (Exception constraintViolation))"
  by (simp add: checkConstraints_all_eq eval_defs)

text \<open>
  C2. The invariant "every stored element passes every constraint" does not hold after
  every successful public operation: the grid-based constructor returns normally from
  \<open>[[0], [5]]\<close> under the constraint \<open>x = 0\<close> with 5 stored, and a following successful
  \<open>setRow(0, [0])\<close> leaves it stored.
\<close>

theorem Matrix_data_breaks_invariant:
  "fst (Matrix_data [[0], [5]] 0 zero_only) = Inr () \<and>
   \<not> constrained (snd (Matrix_data [[0], [5]] 0 zero_only)) \<and>
   fst (setRow 0 [0] (snd (Matrix_data [[0], [5]] 0 zero_only))) = Inr () \<and>
   \<not> constrained (snd (setRow 0 [0] (snd (Matrix_data [[0], [5]] 0 zero_only))))"
  by (simp add: eval_defs)

section \<open>Row and column access\<close>

text \<open>
  C9. On a rectangular matrix, for a row index below \<open>m_numRows\<close> and a row of
  \<open>m_numColumns\<close> elements that all pass every constraint, \<open>setRow\<close> returns normally
  and replaces exactly that row; \<open>getRow\<close> at that index then yields the new row,
  \<open>getRow\<close> at every other index yields what it did before, and the shape and the
  constraints are unchanged.
\<close>

theorem setRow_getRow:
  assumes "rectangular m" and "i < m_numRows m" and "length row = m_numColumns m"
    and "list_all (satisfies (m_Constraints m)) row"
  shows "setRow i row m = (Inr (), m\<lparr>m_Data := (m_Data m)[i := row]\<rparr>) \<and>
    getRow i (snd (setRow i row m)) = Inr (MemberRef row) \<and>
    (\<forall>j. j \<noteq> i \<longrightarrow> getRow j (snd (setRow i row m)) = getRow j m) \<and>
    m_numRows (snd (setRow i row m)) = m_numRows m \<and>
    m_numColumns (snd (setRow i row m)) = m_numColumns m \<and>
    m_Constraints (snd (setRow i row m)) = m_Constraints m"
proof -
  from assms(1) have len: "length (m_Data m) = m_numRows m"
    by (simp add: rectangular_def)
  have eq: "setRow i row m = (Inr (), m\<lparr>m_Data := (m_Data m)[i := row]\<rparr>)"
    using assms len by (simp add: setRow_def checkConstraints_vec_eq)
  show ?thesis
    unfolding eq using assms(2) len by (simp add: getRow_def)
qed

theorem setRow_getRow_witness:
  "rectangular fives \<and> 0 < m_numRows fives \<and> length [1, 9 :: cint] = m_numColumns fives \<and>
   list_all (satisfies (m_Constraints fives)) [1, 9] \<and>
   setRow 0 [1, 9] fives = (Inr (), fives\<lparr>m_Data := [[1, 9], [5, 5]]\<rparr>) \<and>
   getRow 0 (snd (setRow 0 [1, 9] fives)) = Inr (MemberRef [1, 9]) \<and>
   getRow 1 (snd (setRow 0 [1, 9] fives)) = Inr (MemberRef [5, 5])"
proof -
  have a: "rectangular fives" by (simp add: fives_def rectangular_def)
  have b: "0 < m_numRows fives" by (simp add: fives_def)
  have c: "length [1, 9 :: cint] = m_numColumns fives" by (simp add: fives_def)
  have d: "list_all (satisfies (m_Constraints fives)) [1, 9]"
    by (simp add: fives_def digits_def satisfies_def check_def validationMap_def word_sle_eq)
  note t = setRow_getRow [OF a b c d]
  have e: "getRow 1 fives = Inr (MemberRef [5, 5])" by (simp add: fives_def getRow_def)
  have f: "(m_Data fives)[0 := [1, 9]] = [[1, 9], [5, 5]]" by (simp add: fives_def)
  from t have "setRow 0 [1, 9] fives = (Inr (), fives\<lparr>m_Data := (m_Data fives)[0 := [1, 9]]\<rparr>)"
    by blast
  then have s: "setRow 0 [1, 9] fives = (Inr (), fives\<lparr>m_Data := [[1, 9], [5, 5]]\<rparr>)"
    by (simp only: f)
  from t have g0: "getRow 0 (snd (setRow 0 [1, 9] fives)) = Inr (MemberRef [1, 9])"
    by blast
  from t have "\<forall>j. j \<noteq> 0 \<longrightarrow> getRow j (snd (setRow 0 [1, 9] fives)) = getRow j fives"
    by blast
  then have "getRow 1 (snd (setRow 0 [1, 9] fives)) = getRow 1 fives"
    by simp
  then have g1: "getRow 1 (snd (setRow 0 [1, 9] fives)) = Inr (MemberRef [5, 5])"
    by (simp only: e)
  from a b c d s g0 g1 show ?thesis by blast
qed

text \<open>
  C3. The index checks do not reject exactly the indices outside the half-open ranges.
  On a 1x1 matrix \<open>getRow(1)\<close> and \<open>setRow(1, [7])\<close> pass the check \<open>row > m_numRows\<close>
  and index \<open>m_Data\<close> out of bounds; \<open>setColumn(1, [7])\<close> passes
  \<open>col > m_numColumns\<close> likewise. \<open>getColumn\<close> compares with \<open>m_numRows\<close>: on a 2x1
  matrix \<open>getColumn(1)\<close> is not rejected and reads out of bounds, and on a 1x3 matrix
  \<open>getColumn(2)\<close>, an index in range, throws \<open>outOfRange\<close>.
\<close>

theorem index_check_off_by_one:
  "getRow 1 grid_1x1 = Inl Undefined \<and>
   fst (setRow 1 [7] grid_1x1) = Inl Undefined \<and>
   fst (setColumn 1 [7] grid_1x1) = Inl Undefined \<and>
   getColumn 1 grid_2x1 = Inl Undefined \<and>
   getColumn 2 grid_1x3 = Inl (Throw (Exception outOfRange))"
  by (simp add: eval_defs)

text \<open>
  C4. With the index one past the end, the length check is what fails: on a 1x1 matrix
  \<open>setRow(1, [])\<close> throws \<open>invalidSize\<close>, and on a 2x2 matrix \<open>setColumn(2, [20])\<close>
  throws \<open>invalidSize\<close>, where the index is outside the half-open range and
  \<open>outOfRange\<close> has priority. (The object is unchanged in both.)
\<close>

theorem size_check_before_bad_index:
  "m_numRows grid_1x1 = 1 \<and>
   setRow 1 [] grid_1x1 = (Inl (Throw (Exception invalidSize)), grid_1x1) \<and>
   m_numColumns grid_2x2 = 2 \<and>
   setColumn 2 [20] grid_2x2 = (Inl (Throw (Exception invalidSize)), grid_2x2)"
  by (simp add: eval_defs)

text \<open>
  C6. \<open>getColumn\<close> with a valid index does not return the column as an owned sequence:
  on a 1x3 matrix the valid index 2 throws \<open>outOfRange\<close> (the check compares with
  \<open>m_numRows\<close>), and where it returns, as for column 0 of a 2x1 matrix, the result is a
  reference to the local \<open>colData\<close>, whose lifetime has ended, so that reading through
  it is undefined.
\<close>

theorem getColumn_valid_index_fails:
  "m_numColumns grid_1x3 = 3 \<and>
   getColumn 2 grid_1x3 = Inl (Throw (Exception outOfRange)) \<and>
   getColumn 0 grid_2x1 = Inr (ExpiredLocalRef [1, 2]) \<and>
   (case getColumn 0 grid_2x1 of Inl e \<Rightarrow> Inl e | Inr r \<Rightarrow> deref r) = Inl Undefined"
  by (simp add: eval_defs)

section \<open>Exception::what\<close>

text \<open>
  C8. The text that an \<open>outOfRange\<close> exception reports is the third entry of
  \<open>errMsg\<close>, which reads "raw/column", not "row/column".
\<close>

theorem outOfRange_message:
  "what (Exception outOfRange) =
     Inr ''Index is out of range when requested raw/column data.'' \<and>
   what (Exception outOfRange) \<noteq>
     Inr ''Index is out of range when requested row/column data.''"
  by (simp add: what_def errMsg_def)

end
